theory Spec2Isabelle
  imports Main "HOL-Library.Word" "HOL-Library.List_Lexorder"
begin

section \<open>The C bridge of RocksDB.swift (RocksDBBridge.cpp)\<close>

text \<open>
  The bridge is a thin C layer over the RocksDB engine. The engine itself is a library
  outside the sources, so every engine call is a parameter of the model: the function
  that embeds a bridge function takes the engine operation it calls and uses its answer
  the way the C++ does.

  Conventions of the embedding:
  \<^item> a nullable pointer is an \<open>option\<close>: \<open>None\<close> is the null pointer;
  \<^item> a C string (\<open>char*\<close>) is the text it points to, cut at the first NUL byte;
  \<^item> a byte range (\<open>const char*\<close> with a \<open>size_t\<close> length) is a list of bytes;
  \<^item> a pointer to a bridge handle that an operation only reads is passed as the
    handle it points to; the operations that create and destroy handles work on an
    explicit store of live handles;
  \<^item> pointers to engine objects (\<open>rocksdb::DB*\<close> and the like) are addresses, and the
    engine operations take the address of the object they are called on.
\<close>

subsection \<open>Status codes (RocksDBBridge.h)\<close>

datatype RocksDBStatusCode =
    RocksDBStatusOK
  | RocksDBStatusNotFound
  | RocksDBStatusCorruption
  | RocksDBStatusNotSupported
  | RocksDBStatusInvalidArgument
  | RocksDBStatusIOError
  | RocksDBStatusMergeInProgress
  | RocksDBStatusIncomplete
  | RocksDBStatusShutdownInProgress
  | RocksDBStatusTimedOut
  | RocksDBStatusAborted
  | RocksDBStatusBusy
  | RocksDBStatusExpired
  | RocksDBStatusTryAgain
  | RocksDBStatusCompactionTooLarge

record RocksDBStatus =
  code :: RocksDBStatusCode
  message :: "string option"

subsection \<open>The engine's status, as the bridge observes it\<close>

text \<open>
  \<open>make_status\<close> reads a \<open>rocksdb::Status\<close> only through its predicates and
  \<open>ToString\<close>. The record holds the answer of each of them; no relation between the
  answers is assumed.
\<close>

record rocksdb_Status =
  ok :: bool
  IsNotFound :: bool
  IsCorruption :: bool
  IsNotSupported :: bool
  IsInvalidArgument :: bool
  IsIOError :: bool
  IsMergeInProgress :: bool
  IsIncomplete :: bool
  IsShutdownInProgress :: bool
  IsTimedOut :: bool
  IsAborted :: bool
  IsBusy :: bool
  IsExpired :: bool
  IsTryAgain :: bool
  IsCompactionTooLarge :: bool
  ToString :: string

subsection \<open>C strings\<close>

definition c_str :: "string \<Rightarrow> string" where
  \<comment> \<open>what a reader of the \<open>char*\<close> of a \<open>std::string\<close> sees: the text up to the first NUL\<close>
  "c_str s = takeWhile (\<lambda>c. c \<noteq> CHR 0x00) s"

definition strdup :: "string \<Rightarrow> string option" where
  \<comment> \<open>the copy is used unchecked by the source; the model takes it to be made\<close>
  "strdup s = Some (c_str s)"

subsection \<open>Helper functions\<close>

definition make_status :: "rocksdb_Status \<Rightarrow> RocksDBStatus" where
  "make_status s =
     (if ok s then \<lparr>code = RocksDBStatusOK, message = None\<rparr>
      else \<lparr>code =
              (if IsNotFound s then RocksDBStatusNotFound
               else if IsCorruption s then RocksDBStatusCorruption
               else if IsNotSupported s then RocksDBStatusNotSupported
               else if IsInvalidArgument s then RocksDBStatusInvalidArgument
               else if IsIOError s then RocksDBStatusIOError
               else if IsMergeInProgress s then RocksDBStatusMergeInProgress
               else if IsIncomplete s then RocksDBStatusIncomplete
               else if IsShutdownInProgress s then RocksDBStatusShutdownInProgress
               else if IsTimedOut s then RocksDBStatusTimedOut
               else if IsAborted s then RocksDBStatusAborted
               else if IsBusy s then RocksDBStatusBusy
               else if IsExpired s then RocksDBStatusExpired
               else if IsTryAgain s then RocksDBStatusTryAgain
               else if IsCompactionTooLarge s then RocksDBStatusCompactionTooLarge
               else RocksDBStatusIOError),
            message = strdup (ToString s)\<rparr>)"

definition make_ok :: RocksDBStatus where
  "make_ok = \<lparr>code = RocksDBStatusOK, message = None\<rparr>"


subsection \<open>Byte ranges and option structures\<close>

type_synonym byte = "8 word"
type_synonym bytes = "byte list"

definition Slice :: "bytes \<Rightarrow> nat \<Rightarrow> bytes" where
  \<comment> \<open>\<open>rocksdb::Slice(p, n)\<close>: the \<open>n\<close> bytes found at \<open>p\<close>\<close>
  "Slice p n = take n p"

text \<open>
  The option handles hold one engine structure each, so a handle is modelled as the
  structure it holds. The fields are the ones the bridge's setters write; the values of
  a default-constructed structure are the engine's.
\<close>

record ReadOptions =
  verify_checksums :: bool
  fill_cache :: bool
  snapshot :: "nat option"
  prefix_same_as_start :: bool

record WriteOptions =
  sync :: bool
  disableWAL :: bool

definition default_ReadOptions :: ReadOptions where
  "default_ReadOptions =
     \<lparr>verify_checksums = True, fill_cache = True, snapshot = None,
      prefix_same_as_start = False\<rparr>"

definition default_WriteOptions :: WriteOptions where
  "default_WriteOptions = \<lparr>sync = False, disableWAL = False\<rparr>"

definition readOpts_of :: "ReadOptions option \<Rightarrow> ReadOptions" where
  \<comment> \<open>\<open>rocksdb::ReadOptions readOpts; if (opts) readOpts = opts->options;\<close>\<close>
  "readOpts_of opts = (case opts of None \<Rightarrow> default_ReadOptions | Some r \<Rightarrow> r)"

definition writeOpts_of :: "WriteOptions option \<Rightarrow> WriteOptions" where
  \<comment> \<open>\<open>rocksdb::WriteOptions writeOpts; if (opts) writeOpts = opts->options;\<close>\<close>
  "writeOpts_of opts = (case opts of None \<Rightarrow> default_WriteOptions | Some r \<Rightarrow> r)"

subsection \<open>Internal handle structures\<close>

record RocksDBHandle =
  db :: "nat option"
  txn_db :: "nat option"
  is_transactional :: bool

record RocksDBIteratorHandle =
  iter :: "nat option"

record 'b RocksDBBatchHandle =
  batch :: 'b

record RocksDBTransactionHandle =
  txn :: "nat option"

text \<open>
  The store of live \<open>RocksDBHandle\<close> objects, by address, and the engine objects the
  bridge has deleted so far (latest first).
\<close>

record world =
  handles :: "(nat \<times> RocksDBHandle) list"
  deleted :: "nat list"

definition fresh_addr :: "(nat \<times> 'a) list \<Rightarrow> nat" where
  \<comment> \<open>an address that no live object has, and that is not null\<close>
  "fresh_addr xs = Suc (foldr max (map fst xs) 0)"

definition handle_at :: "world \<Rightarrow> nat option \<Rightarrow> RocksDBHandle option" where
  \<comment> \<open>what a \<open>RocksDBRef\<close> points to: nothing for the null pointer\<close>
  "handle_at w r = (case r of None \<Rightarrow> None | Some a \<Rightarrow> map_of (handles w) a)"

definition new_RocksDBHandle :: "world \<Rightarrow> nat \<times> world" where
  \<comment> \<open>\<open>new RocksDBHandle()\<close>, with the member initialisers of the struct\<close>
  "new_RocksDBHandle w =
     (let a = fresh_addr (handles w)
      in (a, w\<lparr>handles :=
                 (a, \<lparr>db = None, txn_db = None, is_transactional = False\<rparr>) # handles w\<rparr>))"

definition update_handle :: "nat \<Rightarrow> (RocksDBHandle \<Rightarrow> RocksDBHandle) \<Rightarrow> world \<Rightarrow> world" where
  \<comment> \<open>a write to a field of the handle at address \<open>a\<close>\<close>
  "update_handle a f w =
     w\<lparr>handles := map (\<lambda>(k, h). if k = a then (k, f h) else (k, h)) (handles w)\<rparr>"

definition RocksDBHandle_dtor :: "RocksDBHandle \<Rightarrow> nat list" where
  \<comment> \<open>\<open>~RocksDBHandle\<close>: the engine objects it deletes\<close>
  "RocksDBHandle_dtor h =
     (if is_transactional h \<and> txn_db h \<noteq> None then
        (case txn_db h of Some t \<Rightarrow> [t] | None \<Rightarrow> [])
      else (case db h of Some p \<Rightarrow> [p] | None \<Rightarrow> []))"

definition delete_RocksDBHandle :: "nat \<Rightarrow> world \<Rightarrow> world" where
  \<comment> \<open>\<open>delete handle\<close>: run the destructor, then give the object back\<close>
  "delete_RocksDBHandle a w =
     (case map_of (handles w) a of
        None \<Rightarrow> w
      | Some h \<Rightarrow>
          w\<lparr>handles := filter (\<lambda>(k, _). k \<noteq> a) (handles w),
            deleted := RocksDBHandle_dtor h @ deleted w\<rparr>)"

subsection \<open>Database operations\<close>

text \<open>
  \<open>Open\<close> stands for \<open>rocksdb::DB::Open\<close>: it answers with its status and with what it
  stored through the \<open>DB**\<close> it was given. \<open>opts\<close> is the options structure of the
  (non-null) options handle; the result holds the returned status, \<open>*db_out\<close> and the
  store afterwards.
\<close>

definition rocksdb_open ::
  "('o \<Rightarrow> string \<Rightarrow> rocksdb_Status \<times> nat option) \<Rightarrow> world \<Rightarrow> string \<Rightarrow> 'o
     \<Rightarrow> RocksDBStatus \<times> nat option \<times> world" where
  "rocksdb_open Open w path opts =
     (let (handle, w1) = new_RocksDBHandle w;
          (s, dbptr) = Open opts path;
          w2 = update_handle handle (\<lambda>h. h\<lparr>db := dbptr\<rparr>) w1
      in if ok s then (make_status s, Some handle, w2)
         else (make_status s, None, delete_RocksDBHandle handle w2))"

definition rocksdb_open_for_read_only ::
  "('o \<Rightarrow> string \<Rightarrow> bool \<Rightarrow> rocksdb_Status \<times> nat option) \<Rightarrow> world \<Rightarrow> string \<Rightarrow> 'o \<Rightarrow> int
     \<Rightarrow> RocksDBStatus \<times> nat option \<times> world" where
  "rocksdb_open_for_read_only OpenForReadOnly w path opts error_if_wal_exists =
     (let (handle, w1) = new_RocksDBHandle w;
          (s, dbptr) = OpenForReadOnly opts path (error_if_wal_exists \<noteq> 0);
          w2 = update_handle handle (\<lambda>h. h\<lparr>db := dbptr\<rparr>) w1
      in if ok s then (make_status s, Some handle, w2)
         else (make_status s, None, delete_RocksDBHandle handle w2))"

text \<open>
  \<open>TxnOpen\<close> stands for \<open>rocksdb::OptimisticTransactionDB::Open\<close> and \<open>GetBaseDB\<close> for
  the method of that name. The call \<open>handle->txn_db->GetBaseDB()\<close> is made unchecked: if
  the engine reported success and stored a null pointer the behaviour is undefined, and
  the model returns \<open>None\<close>.
\<close>

definition rocksdb_open_transactional ::
  "('o \<Rightarrow> string \<Rightarrow> rocksdb_Status \<times> nat option) \<Rightarrow> (nat \<Rightarrow> nat option) \<Rightarrow> world \<Rightarrow> string \<Rightarrow> 'o
     \<Rightarrow> (RocksDBStatus \<times> nat option \<times> world) option" where
  "rocksdb_open_transactional TxnOpen GetBaseDB w path opts =
     (let (handle, w1) = new_RocksDBHandle w;
          w2 = update_handle handle (\<lambda>h. h\<lparr>is_transactional := True\<rparr>) w1;
          (s, t) = TxnOpen opts path;
          w3 = update_handle handle (\<lambda>h. h\<lparr>txn_db := t\<rparr>) w2
      in if ok s then
           (case t of
              None \<Rightarrow> None
            | Some tp \<Rightarrow>
                Some (make_status s, Some handle,
                      update_handle handle (\<lambda>h. h\<lparr>db := GetBaseDB tp\<rparr>) w3))
         else Some (make_status s, None, delete_RocksDBHandle handle w3))"

definition rocksdb_is_transactional :: "RocksDBHandle option \<Rightarrow> int" where
  "rocksdb_is_transactional dbref =
     (case dbref of None \<Rightarrow> 0 | Some h \<Rightarrow> if is_transactional h then 1 else 0)"


subsection \<open>Buffers handed to the caller\<close>

text \<open>
  The blocks obtained from \<open>malloc\<close>, by address. \<open>rocksdb_get\<close> tests the result of
  \<open>malloc\<close> before it copies, so the model has both outcomes of that test, selected by
  \<open>granted\<close>. The properties of the lookups are stated for an allocator that grants the
  request (\<open>granted\<close> holds): memory exhaustion is outside what the layer specifies, as
  it is for \<open>strdup\<close>.
\<close>

type_synonym heap = "(nat \<times> bytes) list"

definition malloc :: "bool \<Rightarrow> heap \<Rightarrow> nat \<Rightarrow> nat option \<times> heap" where
  "malloc granted hp n =
     (if granted then (Some (fresh_addr hp), (fresh_addr hp, replicate n 0) # hp)
      else (None, hp))"

definition memcpy :: "heap \<Rightarrow> nat \<Rightarrow> bytes \<Rightarrow> nat \<Rightarrow> heap" where
  \<comment> \<open>\<open>memcpy(dst, src, n)\<close> on the block at \<open>dst\<close>\<close>
  "memcpy hp dst src n =
     map (\<lambda>(p, b). if p = dst then (p, take n src @ drop n b) else (p, b)) hp"

subsection \<open>Key-value operations\<close>

text \<open>
  \<open>Put\<close>, \<open>Get\<close>, \<open>Delete\<close>, \<open>KeyMayExist\<close> stand for the methods of \<open>rocksdb::DB\<close>, applied
  to the engine object whose address is their first argument. \<open>Get\<close> answers with its
  status and with the contents of the \<open>std::string\<close> it was given to fill.
\<close>

definition rocksdb_put ::
  "(nat \<Rightarrow> WriteOptions \<Rightarrow> bytes \<Rightarrow> bytes \<Rightarrow> rocksdb_Status) \<Rightarrow> RocksDBHandle option
     \<Rightarrow> WriteOptions option \<Rightarrow> bytes \<Rightarrow> nat \<Rightarrow> bytes \<Rightarrow> nat \<Rightarrow> RocksDBStatus" where
  "rocksdb_put Put dbref opts key key_len val val_len =
     (case dbref of
        None \<Rightarrow> \<lparr>code = RocksDBStatusInvalidArgument, message = strdup ''Database is null''\<rparr>
      | Some h \<Rightarrow>
          (case db h of
             None \<Rightarrow> \<lparr>code = RocksDBStatusInvalidArgument, message = strdup ''Database is null''\<rparr>
           | Some p \<Rightarrow>
               make_status (Put p (writeOpts_of opts) (Slice key key_len) (Slice val val_len))))"

text \<open>
  The result of \<open>rocksdb_get\<close>: the status, \<open>*value_out\<close>, \<open>*value_len_out\<close> and the
  \<open>malloc\<close> blocks afterwards.
\<close>

definition rocksdb_get ::
  "(nat \<Rightarrow> ReadOptions \<Rightarrow> bytes \<Rightarrow> rocksdb_Status \<times> bytes) \<Rightarrow> bool \<Rightarrow> heap \<Rightarrow> RocksDBHandle option
     \<Rightarrow> ReadOptions option \<Rightarrow> bytes \<Rightarrow> nat \<Rightarrow> RocksDBStatus \<times> nat option \<times> nat \<times> heap" where
  "rocksdb_get Get granted hp dbref opts key key_len =
     (case dbref of
        None \<Rightarrow>
          (\<lparr>code = RocksDBStatusInvalidArgument, message = strdup ''Database is null''\<rparr>,
           None, 0, hp)
      | Some h \<Rightarrow>
          (case db h of
             None \<Rightarrow>
               (\<lparr>code = RocksDBStatusInvalidArgument, message = strdup ''Database is null''\<rparr>,
                None, 0, hp)
           | Some p \<Rightarrow>
               (let (s, v) = Get p (readOpts_of opts) (Slice key key_len)
                in if ok s then
                     (let (value_out, hp1) = malloc granted hp (length v)
                      in (make_status s, value_out, length v,
                          (case value_out of
                             None \<Rightarrow> hp1
                           | Some q \<Rightarrow> memcpy hp1 q v (length v))))
                   else (make_status s, None, 0, hp))))"

definition rocksdb_delete ::
  "(nat \<Rightarrow> WriteOptions \<Rightarrow> bytes \<Rightarrow> rocksdb_Status) \<Rightarrow> RocksDBHandle option
     \<Rightarrow> WriteOptions option \<Rightarrow> bytes \<Rightarrow> nat \<Rightarrow> RocksDBStatus" where
  "rocksdb_delete Delete dbref opts key key_len =
     (case dbref of
        None \<Rightarrow> \<lparr>code = RocksDBStatusInvalidArgument, message = strdup ''Database is null''\<rparr>
      | Some h \<Rightarrow>
          (case db h of
             None \<Rightarrow> \<lparr>code = RocksDBStatusInvalidArgument, message = strdup ''Database is null''\<rparr>
           | Some p \<Rightarrow> make_status (Delete p (writeOpts_of opts) (Slice key key_len))))"

definition rocksdb_key_may_exist ::
  "(nat \<Rightarrow> ReadOptions \<Rightarrow> bytes \<Rightarrow> bool) \<Rightarrow> RocksDBHandle option
     \<Rightarrow> ReadOptions option \<Rightarrow> bytes \<Rightarrow> nat \<Rightarrow> int" where
  "rocksdb_key_may_exist KeyMayExist dbref opts key key_len =
     (case dbref of
        None \<Rightarrow> 0
      | Some h \<Rightarrow>
          (case db h of
             None \<Rightarrow> 0
           | Some p \<Rightarrow> if KeyMayExist p (readOpts_of opts) (Slice key key_len) then 1 else 0))"

subsection \<open>Batch operations\<close>

text \<open>
  The \<open>rocksdb::WriteBatch\<close> inside a batch handle is the engine's; its representation
  \<open>'b\<close> and its methods are parameters. A function that returns nothing in C returns the
  batch handle's contents afterwards (\<open>None\<close> when the handle is null).
\<close>

definition rocksdb_batch_put ::
  "('b \<Rightarrow> bytes \<Rightarrow> bytes \<Rightarrow> 'b) \<Rightarrow> 'b RocksDBBatchHandle option
     \<Rightarrow> bytes \<Rightarrow> nat \<Rightarrow> bytes \<Rightarrow> nat \<Rightarrow> 'b RocksDBBatchHandle option" where
  "rocksdb_batch_put BatchPut batchref key key_len val val_len =
     (case batchref of
        None \<Rightarrow> None
      | Some b \<Rightarrow>
          Some (b\<lparr>batch := BatchPut (batch b) (Slice key key_len) (Slice val val_len)\<rparr>))"

definition rocksdb_batch_delete ::
  "('b \<Rightarrow> bytes \<Rightarrow> 'b) \<Rightarrow> 'b RocksDBBatchHandle option \<Rightarrow> bytes \<Rightarrow> nat
     \<Rightarrow> 'b RocksDBBatchHandle option" where
  "rocksdb_batch_delete BatchDelete batchref key key_len =
     (case batchref of
        None \<Rightarrow> None
      | Some b \<Rightarrow> Some (b\<lparr>batch := BatchDelete (batch b) (Slice key key_len)\<rparr>))"

definition rocksdb_batch_delete_range ::
  "('b \<Rightarrow> bytes \<Rightarrow> bytes \<Rightarrow> 'b) \<Rightarrow> 'b RocksDBBatchHandle option
     \<Rightarrow> bytes \<Rightarrow> nat \<Rightarrow> bytes \<Rightarrow> nat \<Rightarrow> 'b RocksDBBatchHandle option" where
  "rocksdb_batch_delete_range BatchDeleteRange batchref start_key start_key_len end_key end_key_len =
     (case batchref of
        None \<Rightarrow> None
      | Some b \<Rightarrow>
          Some (b\<lparr>batch := BatchDeleteRange (batch b) (Slice start_key start_key_len)
                              (Slice end_key end_key_len)\<rparr>))"

definition rocksdb_batch_clear ::
  "('b \<Rightarrow> 'b) \<Rightarrow> 'b RocksDBBatchHandle option \<Rightarrow> 'b RocksDBBatchHandle option" where
  "rocksdb_batch_clear BatchClear batchref =
     (case batchref of
        None \<Rightarrow> None
      | Some b \<Rightarrow> Some (b\<lparr>batch := BatchClear (batch b)\<rparr>))"

definition rocksdb_batch_count :: "('b \<Rightarrow> nat) \<Rightarrow> 'b RocksDBBatchHandle option \<Rightarrow> nat" where
  "rocksdb_batch_count Count batchref =
     (case batchref of None \<Rightarrow> 0 | Some b \<Rightarrow> Count (batch b))"

definition rocksdb_write_batch ::
  "(nat \<Rightarrow> WriteOptions \<Rightarrow> 'b \<Rightarrow> rocksdb_Status) \<Rightarrow> RocksDBHandle option
     \<Rightarrow> WriteOptions option \<Rightarrow> 'b RocksDBBatchHandle option \<Rightarrow> RocksDBStatus" where
  "rocksdb_write_batch Write dbref opts batchref =
     (case dbref of
        None \<Rightarrow>
          \<lparr>code = RocksDBStatusInvalidArgument, message = strdup ''Database or batch is null''\<rparr>
      | Some h \<Rightarrow>
          (case db h of
             None \<Rightarrow>
               \<lparr>code = RocksDBStatusInvalidArgument,
                message = strdup ''Database or batch is null''\<rparr>
           | Some p \<Rightarrow>
               (case batchref of
                  None \<Rightarrow>
                    \<lparr>code = RocksDBStatusInvalidArgument,
                     message = strdup ''Database or batch is null''\<rparr>
                | Some b \<Rightarrow> make_status (Write p (writeOpts_of opts) (batch b)))))"

subsection \<open>Iterator operations\<close>

text \<open>
  \<open>Valid\<close>, \<open>ikey\<close>, \<open>ivalue\<close>, \<open>istatus\<close> stand for the methods \<open>Valid\<close>, \<open>key\<close>, \<open>value\<close>,
  \<open>status\<close> of \<open>rocksdb::Iterator\<close>. An accessor returns the pointer it hands out (the
  bytes found there) and \<open>*len_out\<close>.
\<close>

definition rocksdb_iterator_valid :: "(nat \<Rightarrow> bool) \<Rightarrow> RocksDBIteratorHandle option \<Rightarrow> int" where
  "rocksdb_iterator_valid Valid iterref =
     (case iterref of
        None \<Rightarrow> 0
      | Some ih \<Rightarrow> (case iter ih of None \<Rightarrow> 0 | Some p \<Rightarrow> if Valid p then 1 else 0))"

definition rocksdb_iterator_key ::
  "(nat \<Rightarrow> bool) \<Rightarrow> (nat \<Rightarrow> bytes) \<Rightarrow> RocksDBIteratorHandle option \<Rightarrow> bytes option \<times> nat" where
  "rocksdb_iterator_key Valid ikey iterref =
     (case iterref of
        None \<Rightarrow> (None, 0)
      | Some ih \<Rightarrow>
          (case iter ih of
             None \<Rightarrow> (None, 0)
           | Some p \<Rightarrow> if \<not> Valid p then (None, 0) else (Some (ikey p), length (ikey p))))"

definition rocksdb_iterator_value ::
  "(nat \<Rightarrow> bool) \<Rightarrow> (nat \<Rightarrow> bytes) \<Rightarrow> RocksDBIteratorHandle option \<Rightarrow> bytes option \<times> nat" where
  "rocksdb_iterator_value Valid ivalue iterref =
     (case iterref of
        None \<Rightarrow> (None, 0)
      | Some ih \<Rightarrow>
          (case iter ih of
             None \<Rightarrow> (None, 0)
           | Some p \<Rightarrow> if \<not> Valid p then (None, 0) else (Some (ivalue p), length (ivalue p))))"

definition rocksdb_iterator_status ::
  "(nat \<Rightarrow> rocksdb_Status) \<Rightarrow> RocksDBIteratorHandle option \<Rightarrow> RocksDBStatus" where
  "rocksdb_iterator_status istatus iterref =
     (case iterref of
        None \<Rightarrow> \<lparr>code = RocksDBStatusInvalidArgument, message = strdup ''Iterator is null''\<rparr>
      | Some ih \<Rightarrow>
          (case iter ih of
             None \<Rightarrow> \<lparr>code = RocksDBStatusInvalidArgument, message = strdup ''Iterator is null''\<rparr>
           | Some p \<Rightarrow> make_status (istatus p)))"


subsection \<open>Transaction operations\<close>

text \<open>
  \<open>BeginTransaction\<close> stands for the method of \<open>rocksdb::OptimisticTransactionDB\<close>;
  \<open>TxnPut\<close>, \<open>TxnGet\<close>, \<open>TxnGetForUpdate\<close>, \<open>TxnDelete\<close>, \<open>Commit\<close>,
  \<open>RollbackToSavePoint\<close> for the methods of \<open>rocksdb::Transaction\<close>.
\<close>

definition rocksdb_transaction_begin ::
  "(nat \<Rightarrow> WriteOptions \<Rightarrow> nat option) \<Rightarrow> RocksDBHandle option \<Rightarrow> WriteOptions option
     \<Rightarrow> RocksDBTransactionHandle option" where
  "rocksdb_transaction_begin BeginTransaction dbref opts =
     (case dbref of
        None \<Rightarrow> None
      | Some h \<Rightarrow>
          if \<not> is_transactional h then None
          else (case txn_db h of
                  None \<Rightarrow> None
                | Some t \<Rightarrow> Some \<lparr>txn = BeginTransaction t (writeOpts_of opts)\<rparr>))"

definition rocksdb_transaction_put ::
  "(nat \<Rightarrow> bytes \<Rightarrow> bytes \<Rightarrow> rocksdb_Status) \<Rightarrow> RocksDBTransactionHandle option
     \<Rightarrow> bytes \<Rightarrow> nat \<Rightarrow> bytes \<Rightarrow> nat \<Rightarrow> RocksDBStatus" where
  "rocksdb_transaction_put TxnPut txnref key key_len val val_len =
     (case txnref of
        None \<Rightarrow> \<lparr>code = RocksDBStatusInvalidArgument, message = strdup ''Transaction is null''\<rparr>
      | Some th \<Rightarrow>
          (case txn th of
             None \<Rightarrow>
               \<lparr>code = RocksDBStatusInvalidArgument, message = strdup ''Transaction is null''\<rparr>
           | Some p \<Rightarrow> make_status (TxnPut p (Slice key key_len) (Slice val val_len))))"

definition rocksdb_transaction_get ::
  "(nat \<Rightarrow> ReadOptions \<Rightarrow> bytes \<Rightarrow> rocksdb_Status \<times> bytes) \<Rightarrow> bool \<Rightarrow> heap
     \<Rightarrow> RocksDBTransactionHandle option \<Rightarrow> ReadOptions option \<Rightarrow> bytes \<Rightarrow> nat
     \<Rightarrow> RocksDBStatus \<times> nat option \<times> nat \<times> heap" where
  "rocksdb_transaction_get TxnGet granted hp txnref opts key key_len =
     (case txnref of
        None \<Rightarrow>
          (\<lparr>code = RocksDBStatusInvalidArgument, message = strdup ''Transaction is null''\<rparr>,
           None, 0, hp)
      | Some th \<Rightarrow>
          (case txn th of
             None \<Rightarrow>
               (\<lparr>code = RocksDBStatusInvalidArgument, message = strdup ''Transaction is null''\<rparr>,
                None, 0, hp)
           | Some p \<Rightarrow>
               (let (s, v) = TxnGet p (readOpts_of opts) (Slice key key_len)
                in if ok s then
                     (let (value_out, hp1) = malloc granted hp (length v)
                      in (make_status s, value_out, length v,
                          (case value_out of
                             None \<Rightarrow> hp1
                           | Some q \<Rightarrow> memcpy hp1 q v (length v))))
                   else (make_status s, None, 0, hp))))"

definition rocksdb_transaction_get_for_update ::
  "(nat \<Rightarrow> ReadOptions \<Rightarrow> bytes \<Rightarrow> rocksdb_Status \<times> bytes) \<Rightarrow> bool \<Rightarrow> heap
     \<Rightarrow> RocksDBTransactionHandle option \<Rightarrow> ReadOptions option \<Rightarrow> bytes \<Rightarrow> nat
     \<Rightarrow> RocksDBStatus \<times> nat option \<times> nat \<times> heap" where
  "rocksdb_transaction_get_for_update TxnGetForUpdate granted hp txnref opts key key_len =
     (case txnref of
        None \<Rightarrow>
          (\<lparr>code = RocksDBStatusInvalidArgument, message = strdup ''Transaction is null''\<rparr>,
           None, 0, hp)
      | Some th \<Rightarrow>
          (case txn th of
             None \<Rightarrow>
               (\<lparr>code = RocksDBStatusInvalidArgument, message = strdup ''Transaction is null''\<rparr>,
                None, 0, hp)
           | Some p \<Rightarrow>
               (let (s, v) = TxnGetForUpdate p (readOpts_of opts) (Slice key key_len)
                in if ok s then
                     (let (value_out, hp1) = malloc granted hp (length v)
                      in (make_status s, value_out, length v,
                          (case value_out of
                             None \<Rightarrow> hp1
                           | Some q \<Rightarrow> memcpy hp1 q v (length v))))
                   else (make_status s, None, 0, hp))))"

definition rocksdb_transaction_delete ::
  "(nat \<Rightarrow> bytes \<Rightarrow> rocksdb_Status) \<Rightarrow> RocksDBTransactionHandle option \<Rightarrow> bytes \<Rightarrow> nat
     \<Rightarrow> RocksDBStatus" where
  "rocksdb_transaction_delete TxnDelete txnref key key_len =
     (case txnref of
        None \<Rightarrow> \<lparr>code = RocksDBStatusInvalidArgument, message = strdup ''Transaction is null''\<rparr>
      | Some th \<Rightarrow>
          (case txn th of
             None \<Rightarrow>
               \<lparr>code = RocksDBStatusInvalidArgument, message = strdup ''Transaction is null''\<rparr>
           | Some p \<Rightarrow> make_status (TxnDelete p (Slice key key_len))))"

definition rocksdb_transaction_commit ::
  "(nat \<Rightarrow> rocksdb_Status) \<Rightarrow> RocksDBTransactionHandle option \<Rightarrow> RocksDBStatus" where
  "rocksdb_transaction_commit Commit txnref =
     (case txnref of
        None \<Rightarrow> \<lparr>code = RocksDBStatusInvalidArgument, message = strdup ''Transaction is null''\<rparr>
      | Some th \<Rightarrow>
          (case txn th of
             None \<Rightarrow>
               \<lparr>code = RocksDBStatusInvalidArgument, message = strdup ''Transaction is null''\<rparr>
           | Some p \<Rightarrow> make_status (Commit p)))"

definition rocksdb_transaction_rollback_to_savepoint ::
  "(nat \<Rightarrow> rocksdb_Status) \<Rightarrow> RocksDBTransactionHandle option \<Rightarrow> RocksDBStatus" where
  "rocksdb_transaction_rollback_to_savepoint RollbackToSavePoint txnref =
     (case txnref of
        None \<Rightarrow> \<lparr>code = RocksDBStatusInvalidArgument, message = strdup ''Transaction is null''\<rparr>
      | Some th \<Rightarrow>
          (case txn th of
             None \<Rightarrow>
               \<lparr>code = RocksDBStatusInvalidArgument, message = strdup ''Transaction is null''\<rparr>
           | Some p \<Rightarrow> make_status (RollbackToSavePoint p)))"

subsection \<open>Maintenance operations\<close>

text \<open>
  In \<open>rocksdb_compact_range\<close> the two key pointers are tested, so they are nullable
  here. \<open>compaction_bounds\<close> is the part of the function that builds the two
  \<open>Slice*\<close> arguments; \<open>CompactRange\<close> stands for the method of \<open>rocksdb::DB\<close>, called
  with default \<open>CompactRangeOptions\<close>.
\<close>

definition compaction_bounds ::
  "bytes option \<Rightarrow> nat \<Rightarrow> bytes option \<Rightarrow> nat \<Rightarrow> bytes option \<times> bytes option" where
  "compaction_bounds start_key start_key_len end_key end_key_len =
     ((case start_key of
         None \<Rightarrow> None
       | Some sk \<Rightarrow> if start_key_len > 0 then Some (Slice sk start_key_len) else None),
      (case end_key of
         None \<Rightarrow> None
       | Some ek \<Rightarrow> if end_key_len > 0 then Some (Slice ek end_key_len) else None))"

definition rocksdb_compact_range ::
  "(nat \<Rightarrow> bytes option \<Rightarrow> bytes option \<Rightarrow> rocksdb_Status) \<Rightarrow> RocksDBHandle option
     \<Rightarrow> bytes option \<Rightarrow> nat \<Rightarrow> bytes option \<Rightarrow> nat \<Rightarrow> RocksDBStatus" where
  "rocksdb_compact_range CompactRange dbref start_key start_key_len end_key end_key_len =
     (case dbref of
        None \<Rightarrow> \<lparr>code = RocksDBStatusInvalidArgument, message = strdup ''Database is null''\<rparr>
      | Some h \<Rightarrow>
          (case db h of
             None \<Rightarrow> \<lparr>code = RocksDBStatusInvalidArgument, message = strdup ''Database is null''\<rparr>
           | Some p \<Rightarrow>
               (let (start, end) = compaction_bounds start_key start_key_len end_key end_key_len
                in make_status (CompactRange p start end))))"

text \<open>
  Modelled from the spec: what the engine's \<open>CompactRange\<close> (not part of the sources)
  does with the two bounds it is given. The spec has it compact a half-open key range
  \<open>[start, end)\<close>, a missing bound standing for the extreme of the keyspace on that
  side; keys are ordered bytewise.
\<close>

definition in_compaction_range :: "bytes option \<Rightarrow> bytes option \<Rightarrow> bytes \<Rightarrow> bool" where
  "in_compaction_range start end k =
     ((case start of None \<Rightarrow> True | Some s \<Rightarrow> s \<le> k) \<and>
      (case end of None \<Rightarrow> True | Some e \<Rightarrow> k < e))"

definition rocksdb_flush ::
  "(nat \<Rightarrow> bool \<Rightarrow> rocksdb_Status) \<Rightarrow> RocksDBHandle option \<Rightarrow> int \<Rightarrow> RocksDBStatus" where
  "rocksdb_flush Flush dbref wait =
     (case dbref of
        None \<Rightarrow> \<lparr>code = RocksDBStatusInvalidArgument, message = strdup ''Database is null''\<rparr>
      | Some h \<Rightarrow>
          (case db h of
             None \<Rightarrow> \<lparr>code = RocksDBStatusInvalidArgument, message = strdup ''Database is null''\<rparr>
           | Some p \<Rightarrow> make_status (Flush p (wait \<noteq> 0))))"

text \<open>
  \<open>GetProperty\<close> answers with its boolean result and with the contents of the
  \<open>std::string\<close> it was given to fill.
\<close>

definition rocksdb_get_property ::
  "(nat \<Rightarrow> string \<Rightarrow> bool \<times> string) \<Rightarrow> RocksDBHandle option \<Rightarrow> string \<Rightarrow> string option" where
  "rocksdb_get_property GetProperty dbref property =
     (case dbref of
        None \<Rightarrow> None
      | Some h \<Rightarrow>
          (case db h of
             None \<Rightarrow> None
           | Some p \<Rightarrow>
               (let (found, v) = GetProperty p property
                in if found then strdup v else None)))"

text \<open>
  Modelled from the spec: the engine's \<open>GetApproximateSizes(ranges, n, sizes)\<close> (not part
  of the sources) estimates the footprint of each of the \<open>n\<close> ranges, and stores the
  estimate of range \<open>i\<close> in \<open>sizes[i]\<close>. The estimator \<open>est\<close> is the engine's.
\<close>

definition GetApproximateSizes ::
  "(bytes \<times> bytes \<Rightarrow> 64 word) \<Rightarrow> (bytes \<times> bytes) list \<Rightarrow> nat \<Rightarrow> 64 word list \<Rightarrow> 64 word list" where
  "GetApproximateSizes est ranges n sizes = map est (take n ranges) @ drop n sizes"

text \<open>
  The four input arrays and \<open>sizes_out\<close> are the lists of what is found at the pointers.
  The loop reads entry \<open>i\<close> of each input array for every \<open>i < num_ranges\<close> and the
  engine writes as many entries of \<open>sizes_out\<close>: with a shorter array the behaviour is
  undefined, and the model returns \<open>None\<close>. Otherwise the result is \<open>sizes_out\<close>
  afterwards.
\<close>

definition rocksdb_get_approximate_sizes ::
  "(nat \<Rightarrow> bytes \<times> bytes \<Rightarrow> 64 word) \<Rightarrow> RocksDBHandle option \<Rightarrow> int
     \<Rightarrow> bytes list \<Rightarrow> nat list \<Rightarrow> bytes list \<Rightarrow> nat list \<Rightarrow> 64 word list
     \<Rightarrow> 64 word list option" where
  "rocksdb_get_approximate_sizes ApproximateSize dbref num_ranges
       start_keys start_key_lens end_keys end_key_lens sizes_out =
     (case dbref of
        None \<Rightarrow> Some sizes_out
      | Some h \<Rightarrow>
          (case db h of
             None \<Rightarrow> Some sizes_out
           | Some p \<Rightarrow>
               if num_ranges \<le> 0 then Some sizes_out
               else
                 (let n = nat num_ranges
                  in if n \<le> length start_keys \<and> n \<le> length start_key_lens \<and>
                        n \<le> length end_keys \<and> n \<le> length end_key_lens \<and>
                        n \<le> length sizes_out
                     then
                       (let ranges =
                              map (\<lambda>i. (Slice (start_keys ! i) (start_key_lens ! i),
                                        Slice (end_keys ! i) (end_key_lens ! i)))
                                [0..<n]
                        in Some (GetApproximateSizes (ApproximateSize p) ranges n sizes_out))
                     else None)))"

subsection \<open>The properties, as stated\<close>

text \<open>
  The order in which \<open>make_status\<close> is said to test the engine's status, as a table of
  tests and codes, and the code of the first test that holds (\<open>IOError\<close> when none does).
\<close>

definition priority_order :: "((rocksdb_Status \<Rightarrow> bool) \<times> RocksDBStatusCode) list" where
  "priority_order =
     [(ok, RocksDBStatusOK),
      (IsNotFound, RocksDBStatusNotFound),
      (IsCorruption, RocksDBStatusCorruption),
      (IsNotSupported, RocksDBStatusNotSupported),
      (IsInvalidArgument, RocksDBStatusInvalidArgument),
      (IsIOError, RocksDBStatusIOError),
      (IsMergeInProgress, RocksDBStatusMergeInProgress),
      (IsIncomplete, RocksDBStatusIncomplete),
      (IsShutdownInProgress, RocksDBStatusShutdownInProgress),
      (IsTimedOut, RocksDBStatusTimedOut),
      (IsAborted, RocksDBStatusAborted),
      (IsBusy, RocksDBStatusBusy),
      (IsExpired, RocksDBStatusExpired),
      (IsTryAgain, RocksDBStatusTryAgain),
      (IsCompactionTooLarge, RocksDBStatusCompactionTooLarge)]"

fun first_match ::
  "rocksdb_Status \<Rightarrow> ((rocksdb_Status \<Rightarrow> bool) \<times> RocksDBStatusCode) list \<Rightarrow> RocksDBStatusCode" where
  "first_match s [] = RocksDBStatusIOError"
| "first_match s ((p, c) # rest) = (if p s then c else first_match s rest)"

text \<open>A status has a message exactly when its code is not \<open>OK\<close>.\<close>

definition message_iff_not_OK :: "RocksDBStatus \<Rightarrow> bool" where
  "message_iff_not_OK st = ((message st \<noteq> None) = (code st \<noteq> RocksDBStatusOK))"

subsection \<open>Engine answers for the concrete instances\<close>

text \<open>
  A small engine to run the bridge on: statuses with the given answers to \<open>ok\<close>,
  \<open>IsNotFound\<close> and \<open>IsIOError\<close>, a database at \<open>/data/db\<close> only, three keys, two
  known properties.
\<close>

definition engine_status :: "bool \<Rightarrow> bool \<Rightarrow> bool \<Rightarrow> string \<Rightarrow> rocksdb_Status" where
  "engine_status isok nf io txt =
     \<lparr>ok = isok, IsNotFound = nf, IsCorruption = False, IsNotSupported = False,
      IsInvalidArgument = False, IsIOError = io, IsMergeInProgress = False,
      IsIncomplete = False, IsShutdownInProgress = False, IsTimedOut = False,
      IsAborted = False, IsBusy = False, IsExpired = False, IsTryAgain = False,
      IsCompactionTooLarge = False, ToString = txt\<rparr>"

definition sample_handle :: RocksDBHandle where
  "sample_handle = \<lparr>db = Some 1, txn_db = None, is_transactional = False\<rparr>"

definition sample_world :: world where
  "sample_world = \<lparr>handles = [(3, sample_handle)], deleted = []\<rparr>"

definition sample_Open :: "unit \<Rightarrow> string \<Rightarrow> rocksdb_Status \<times> nat option" where
  "sample_Open opts path =
     (if path = ''/data/db'' then (engine_status True False False ''OK'', Some 5)
      else (engine_status False False True ''IO error: No such file or directory'', None))"

definition sample_OpenForReadOnly :: "unit \<Rightarrow> string \<Rightarrow> bool \<Rightarrow> rocksdb_Status \<times> nat option" where
  "sample_OpenForReadOnly opts path error_if_wal_exists = sample_Open opts path"

definition sample_GetBaseDB :: "nat \<Rightarrow> nat option" where
  "sample_GetBaseDB t = Some (Suc t)"

definition sample_BeginTransaction :: "nat \<Rightarrow> WriteOptions \<Rightarrow> nat option" where
  "sample_BeginTransaction t wo = Some (t + 10)"

definition sample_Get :: "nat \<Rightarrow> ReadOptions \<Rightarrow> bytes \<Rightarrow> rocksdb_Status \<times> bytes" where
  "sample_Get p ro k =
     (if k = [1] then (engine_status True False False ''OK'', [7, 8])
      else if k = [2] then (engine_status True False False ''OK'', [])
      else (engine_status False True False ''NotFound: '', []))"

definition sample_world_plain :: world where
  "sample_world_plain =
     \<lparr>handles = [(4, \<lparr>db = Some 5, txn_db = None, is_transactional = False\<rparr>),
                 (3, sample_handle)],
      deleted = []\<rparr>"

definition sample_world_txn :: world where
  "sample_world_txn =
     \<lparr>handles = [(4, \<lparr>db = Some 6, txn_db = Some 5, is_transactional = True\<rparr>),
                 (3, sample_handle)],
      deleted = []\<rparr>"

definition sample_iterator_valid :: "nat \<Rightarrow> bool" where
  "sample_iterator_valid p = (p = 1)"

definition sample_iterator_key :: "nat \<Rightarrow> bytes" where
  "sample_iterator_key p = [97]"

definition sample_GetProperty :: "nat \<Rightarrow> string \<Rightarrow> bool \<times> string" where
  "sample_GetProperty p name =
     (if name = ''rocksdb.stats'' then (True, '''')
      else if name = ''rocksdb.num-files-at-level0'' then (True, ''2'')
      else (False, ''''))"

definition sample_ApproximateSize :: "nat \<Rightarrow> bytes \<times> bytes \<Rightarrow> 64 word" where
  "sample_ApproximateSize p r = of_nat (length (fst r) + length (snd r))"

definition sample_CompactRange :: "nat \<Rightarrow> bytes option \<Rightarrow> bytes option \<Rightarrow> rocksdb_Status" where
  "sample_CompactRange p b e = engine_status True False False ''OK''"

definition sample_KeyMayExist :: "nat \<Rightarrow> ReadOptions \<Rightarrow> bytes \<Rightarrow> bool" where
  "sample_KeyMayExist p ro k = True"

definition sample_BatchPut :: "(bytes \<times> bytes) list \<Rightarrow> bytes \<Rightarrow> bytes \<Rightarrow> (bytes \<times> bytes) list" where
  "sample_BatchPut b k v = b @ [(k, v)]"

definition sample_BatchDelete :: "(bytes \<times> bytes) list \<Rightarrow> bytes \<Rightarrow> (bytes \<times> bytes) list" where
  "sample_BatchDelete b k = filter (\<lambda>(k', _). k' \<noteq> k) b"

section \<open>Properties\<close>

subsection \<open>The store of handles\<close>

lemma le_foldr_max: "k \<in> set ks \<Longrightarrow> k \<le> foldr max ks (0::nat)"
  by (induction ks) (auto simp: max_def)

lemma fresh_addr_greater: "k \<in> fst ` set xs \<Longrightarrow> k < fresh_addr xs"
  using le_foldr_max [of k "map fst xs"] by (simp add: fresh_addr_def less_Suc_eq_le)

lemma fresh_addr_notin: "fresh_addr xs \<notin> fst ` set xs"
  using fresh_addr_greater [of "fresh_addr xs" xs] by auto

lemma filter_fresh_addr: "filter (\<lambda>(k, _). k \<noteq> fresh_addr xs) xs = xs"
proof -
  have "\<forall>x \<in> set xs. (\<lambda>(k, _). k \<noteq> fresh_addr xs) x"
    using fresh_addr_greater [of _ xs] by force
  then show ?thesis by (simp only: filter_True)
qed

lemma map_fresh_addr:
  "map (\<lambda>(k, h). if k = fresh_addr xs then (k, f h) else (k, h)) xs = xs"
proof -
  have "\<forall>x \<in> set xs. (\<lambda>(k, h). if k = fresh_addr xs then (k, f h) else (k, h)) x = x"
    using fresh_addr_greater [of _ xs] by force
  then show ?thesis by (simp add: map_idI)
qed

lemma update_handle_new:
  "update_handle (fresh_addr hs) f (w\<lparr>handles := (fresh_addr hs, h) # hs\<rparr>) =
     w\<lparr>handles := (fresh_addr hs, f h) # hs\<rparr>"
  by (simp add: update_handle_def map_fresh_addr)

lemma delete_RocksDBHandle_new:
  "delete_RocksDBHandle (fresh_addr hs) (w\<lparr>handles := (fresh_addr hs, h) # hs\<rparr>) =
     w\<lparr>handles := hs, deleted := RocksDBHandle_dtor h @ deleted w\<rparr>"
  by (simp add: delete_RocksDBHandle_def filter_fresh_addr)

subsection \<open>What the three open operations return\<close>

lemma open_failed:
  assumes "Open opts path = (s, dbptr)" and "\<not> ok s"
  shows "rocksdb_open Open w path opts =
           (make_status s, None,
            w\<lparr>deleted := (case dbptr of None \<Rightarrow> [] | Some p \<Rightarrow> [p]) @ deleted w\<rparr>)"
  using assms
  by (simp add: rocksdb_open_def new_RocksDBHandle_def update_handle_new
      delete_RocksDBHandle_new RocksDBHandle_dtor_def Let_def
      split: option.splits)

lemma open_for_read_only_failed:
  assumes "OpenForReadOnly opts path (e \<noteq> 0) = (s, dbptr)" and "\<not> ok s"
  shows "rocksdb_open_for_read_only OpenForReadOnly w path opts e =
           (make_status s, None,
            w\<lparr>deleted := (case dbptr of None \<Rightarrow> [] | Some p \<Rightarrow> [p]) @ deleted w\<rparr>)"
  using assms
  by (simp add: rocksdb_open_for_read_only_def new_RocksDBHandle_def update_handle_new
      delete_RocksDBHandle_new RocksDBHandle_dtor_def Let_def
      split: option.splits)

lemma open_transactional_failed:
  assumes "TxnOpen opts path = (s, t)" and "\<not> ok s"
  shows "rocksdb_open_transactional TxnOpen GetBaseDB w path opts =
           Some (make_status s, None,
                 w\<lparr>deleted := (case t of None \<Rightarrow> [] | Some p \<Rightarrow> [p]) @ deleted w\<rparr>)"
  using assms
  by (simp add: rocksdb_open_transactional_def new_RocksDBHandle_def update_handle_new
      delete_RocksDBHandle_new RocksDBHandle_dtor_def Let_def
      split: option.splits)

lemma open_succeeded:
  assumes "Open opts path = (s, dbptr)" and "ok s"
  shows "rocksdb_open Open w path opts =
           (make_status s, Some (fresh_addr (handles w)),
            w\<lparr>handles := (fresh_addr (handles w),
                          \<lparr>db = dbptr, txn_db = None, is_transactional = False\<rparr>) # handles w\<rparr>)"
  using assms
  by (simp add: rocksdb_open_def new_RocksDBHandle_def update_handle_new Let_def)

lemma open_for_read_only_succeeded:
  assumes "OpenForReadOnly opts path (e \<noteq> 0) = (s, dbptr)" and "ok s"
  shows "rocksdb_open_for_read_only OpenForReadOnly w path opts e =
           (make_status s, Some (fresh_addr (handles w)),
            w\<lparr>handles := (fresh_addr (handles w),
                          \<lparr>db = dbptr, txn_db = None, is_transactional = False\<rparr>) # handles w\<rparr>)"
  using assms
  by (simp add: rocksdb_open_for_read_only_def new_RocksDBHandle_def update_handle_new Let_def)

lemma open_transactional_succeeded:
  assumes "TxnOpen opts path = (s, Some tp)" and "ok s"
  shows "rocksdb_open_transactional TxnOpen GetBaseDB w path opts =
           Some (make_status s, Some (fresh_addr (handles w)),
            w\<lparr>handles := (fresh_addr (handles w),
                          \<lparr>db = GetBaseDB tp, txn_db = Some tp, is_transactional = True\<rparr>)
                         # handles w\<rparr>)"
  using assms
  by (simp add: rocksdb_open_transactional_def new_RocksDBHandle_def update_handle_new Let_def)

lemma open_transactional_undefined:
  assumes "TxnOpen opts path = (s, None)" and "ok s"
  shows "rocksdb_open_transactional TxnOpen GetBaseDB w path opts = None"
  using assms by (simp add: rocksdb_open_transactional_def new_RocksDBHandle_def Let_def)

subsection \<open>The status taxonomy\<close>

text \<open>
  Claim C1. \<open>make_status\<close> is a total function of the engine's status, so every engine
  condition gets exactly one code. The code is that of the first test that holds, in the
  order \<open>ok\<close>, \<open>IsNotFound\<close>, \<open>IsCorruption\<close>, ..., \<open>IsCompactionTooLarge\<close>: a status that
  is not ok and answers \<open>IsNotFound\<close> becomes \<open>NotFound\<close> whatever it answers to
  \<open>IsIOError\<close>, and a status that is not ok and answers no test at all becomes
  \<open>IOError\<close>, with the engine's text as its message.
\<close>

theorem make_status_total_priority:
  "code (make_status s) = first_match s priority_order \<and>
   (ok s \<longrightarrow> make_status s = \<lparr>code = RocksDBStatusOK, message = None\<rparr>) \<and>
   (\<not> ok s \<and> IsNotFound s \<longrightarrow>
      make_status s = \<lparr>code = RocksDBStatusNotFound, message = strdup (ToString s)\<rparr>) \<and>
   (\<not> ok s \<and> \<not> IsNotFound s \<and> \<not> IsCorruption s \<and> \<not> IsNotSupported s \<and>
    \<not> IsInvalidArgument s \<and> \<not> IsIOError s \<and> \<not> IsMergeInProgress s \<and> \<not> IsIncomplete s \<and>
    \<not> IsShutdownInProgress s \<and> \<not> IsTimedOut s \<and> \<not> IsAborted s \<and> \<not> IsBusy s \<and>
    \<not> IsExpired s \<and> \<not> IsTryAgain s \<and> \<not> IsCompactionTooLarge s \<longrightarrow>
      make_status s = \<lparr>code = RocksDBStatusIOError, message = strdup (ToString s)\<rparr>)"
  by (simp add: make_status_def priority_order_def)

theorem make_status_total_priority_witness:
  "make_status (engine_status True False False '''') = \<lparr>code = RocksDBStatusOK, message = None\<rparr> \<and>
   make_status (engine_status False True True ''NotFound: '') =
     \<lparr>code = RocksDBStatusNotFound, message = Some ''NotFound: ''\<rparr> \<and>
   make_status (engine_status False False False ''Column family dropped: '') =
     \<lparr>code = RocksDBStatusIOError, message = Some ''Column family dropped: ''\<rparr>"
  using make_status_total_priority [of "engine_status True False False ''''"]
        make_status_total_priority [of "engine_status False True True ''NotFound: ''"]
        make_status_total_priority [of "engine_status False False False ''Column family dropped: ''"]
  by (simp add: engine_status_def strdup_def c_str_def)

lemma make_status_message: "message_iff_not_OK (make_status s)"
  by (simp add: message_iff_not_OK_def make_status_def strdup_def)

lemma invalid_argument_message:
  "message_iff_not_OK \<lparr>code = RocksDBStatusInvalidArgument, message = strdup m\<rparr>"
  by (simp add: message_iff_not_OK_def strdup_def)

lemma open_message: "message_iff_not_OK (fst (rocksdb_open Open w path opts))"
proof -
  obtain s d where o: "Open opts path = (s, d)" by (cases "Open opts path")
  show ?thesis
    using open_succeeded [of Open opts path s d w] open_failed [of Open opts path s d w] o
    by (cases "ok s") (simp_all add: make_status_message)
qed

lemma open_for_read_only_message:
  "message_iff_not_OK (fst (rocksdb_open_for_read_only OpenForReadOnly w path opts e))"
proof -
  obtain s d where o: "OpenForReadOnly opts path (e \<noteq> 0) = (s, d)"
    by (cases "OpenForReadOnly opts path (e \<noteq> 0)")
  show ?thesis
    using open_for_read_only_succeeded [of OpenForReadOnly opts path e s d w]
      open_for_read_only_failed [of OpenForReadOnly opts path e s d w] o
    by (cases "ok s") (simp_all add: make_status_message)
qed

lemma open_transactional_message:
  "rocksdb_open_transactional TxnOpen GetBaseDB w path opts = Some r \<Longrightarrow>
     message_iff_not_OK (fst r)"
proof -
  assume r: "rocksdb_open_transactional TxnOpen GetBaseDB w path opts = Some r"
  obtain s d where o: "TxnOpen opts path = (s, d)" by (cases "TxnOpen opts path")
  show ?thesis
  proof (cases "ok s")
    case False
    with open_transactional_failed [of TxnOpen opts path s d GetBaseDB w] o r show ?thesis
      by (auto simp: make_status_message)
  next
    case True
    show ?thesis
    proof (cases d)
      case None
      with o True r show ?thesis
        by (simp add: rocksdb_open_transactional_def new_RocksDBHandle_def Let_def)
    next
      case (Some tp)
      with open_transactional_succeeded [of TxnOpen opts path s tp GetBaseDB w] o True r
      show ?thesis by (auto simp: make_status_message)
    qed
  qed
qed

lemma put_message: "message_iff_not_OK (rocksdb_put Put dbref wopts key key_len val val_len)"
  by (simp add: rocksdb_put_def make_status_message invalid_argument_message split: option.splits)

lemma get_message:
  "message_iff_not_OK (fst (rocksdb_get Get granted hp dbref ropts key key_len))"
  by (simp add: rocksdb_get_def make_status_message invalid_argument_message Let_def split_def
      split: option.splits)

lemma delete_message: "message_iff_not_OK (rocksdb_delete Delete dbref wopts key key_len)"
  by (simp add: rocksdb_delete_def make_status_message invalid_argument_message
      split: option.splits)

lemma write_batch_message: "message_iff_not_OK (rocksdb_write_batch Write dbref wopts batchref)"
  by (simp add: rocksdb_write_batch_def make_status_message invalid_argument_message
      split: option.splits)

lemma iterator_status_message: "message_iff_not_OK (rocksdb_iterator_status istatus iterref)"
  by (simp add: rocksdb_iterator_status_def make_status_message invalid_argument_message
      split: option.splits)

lemma transaction_put_message:
  "message_iff_not_OK (rocksdb_transaction_put TxnPut txnref key key_len val val_len)"
  by (simp add: rocksdb_transaction_put_def make_status_message invalid_argument_message
      split: option.splits)

lemma transaction_get_message:
  "message_iff_not_OK (fst (rocksdb_transaction_get TxnGet granted hp txnref ropts key key_len))"
  by (simp add: rocksdb_transaction_get_def make_status_message invalid_argument_message
      Let_def split_def split: option.splits)

lemma transaction_get_for_update_message:
  "message_iff_not_OK
     (fst (rocksdb_transaction_get_for_update TxnGetForUpdate granted hp txnref ropts key key_len))"
  by (simp add: rocksdb_transaction_get_for_update_def make_status_message
      invalid_argument_message Let_def split_def split: option.splits)

lemma transaction_delete_message:
  "message_iff_not_OK (rocksdb_transaction_delete TxnDelete txnref key key_len)"
  by (simp add: rocksdb_transaction_delete_def make_status_message invalid_argument_message
      split: option.splits)

lemma transaction_commit_message:
  "message_iff_not_OK (rocksdb_transaction_commit Commit txnref)"
  by (simp add: rocksdb_transaction_commit_def make_status_message invalid_argument_message
      split: option.splits)

lemma transaction_rollback_to_savepoint_message:
  "message_iff_not_OK (rocksdb_transaction_rollback_to_savepoint RollbackToSavePoint txnref)"
  by (simp add: rocksdb_transaction_rollback_to_savepoint_def make_status_message
      invalid_argument_message split: option.splits)

lemma compact_range_message:
  "message_iff_not_OK
     (rocksdb_compact_range CompactRange dbref start_key start_key_len end_key end_key_len)"
  by (simp add: rocksdb_compact_range_def make_status_message invalid_argument_message
      Let_def split_def split: option.splits)

lemma flush_message: "message_iff_not_OK (rocksdb_flush Flush dbref wait)"
  by (simp add: rocksdb_flush_def make_status_message invalid_argument_message
      split: option.splits)

text \<open>
  Claim C7. Every status this layer hands out has a message exactly when its code is not
  \<open>OK\<close>: the result of \<open>make_status\<close> and of \<open>make_ok\<close>, and with them the status
  returned by each operation that returns one, whatever the engine answers and whether
  or not the handles are null. (\<open>strdup\<close> is taken to make its copy; where
  \<open>rocksdb_open_transactional\<close> is undefined there is no status.)
\<close>

theorem status_message_iff_not_OK:
  "message_iff_not_OK (make_status s) \<and>
   message_iff_not_OK make_ok \<and>
   message_iff_not_OK (fst (rocksdb_open Open w path opts)) \<and>
   message_iff_not_OK (fst (rocksdb_open_for_read_only OpenForReadOnly w path opts e)) \<and>
   (case rocksdb_open_transactional TxnOpen GetBaseDB w path opts of
      None \<Rightarrow> True
    | Some r \<Rightarrow> message_iff_not_OK (fst r)) \<and>
   message_iff_not_OK (rocksdb_put Put dbref wopts key key_len val val_len) \<and>
   message_iff_not_OK (fst (rocksdb_get Get granted hp dbref ropts key key_len)) \<and>
   message_iff_not_OK (rocksdb_delete Delete dbref wopts key key_len) \<and>
   message_iff_not_OK (rocksdb_write_batch Write dbref wopts batchref) \<and>
   message_iff_not_OK (rocksdb_iterator_status istatus iterref) \<and>
   message_iff_not_OK (rocksdb_transaction_put TxnPut txnref key key_len val val_len) \<and>
   message_iff_not_OK (fst (rocksdb_transaction_get TxnGet granted hp txnref ropts key key_len)) \<and>
   message_iff_not_OK
     (fst (rocksdb_transaction_get_for_update TxnGetForUpdate granted hp txnref ropts key key_len)) \<and>
   message_iff_not_OK (rocksdb_transaction_delete TxnDelete txnref key key_len) \<and>
   message_iff_not_OK (rocksdb_transaction_commit Commit txnref) \<and>
   message_iff_not_OK (rocksdb_transaction_rollback_to_savepoint RollbackToSavePoint txnref) \<and>
   message_iff_not_OK
     (rocksdb_compact_range CompactRange dbref start_key start_key_len end_key end_key_len) \<and>
   message_iff_not_OK (rocksdb_flush Flush dbref wait)"
  by (simp add: make_status_message make_ok_def message_iff_not_OK_def [of "\<lparr>code = RocksDBStatusOK, message = None\<rparr>"]
      open_message open_for_read_only_message open_transactional_message put_message get_message
      delete_message write_batch_message iterator_status_message transaction_put_message
      transaction_get_message transaction_get_for_update_message transaction_delete_message
      transaction_commit_message transaction_rollback_to_savepoint_message compact_range_message
      flush_message split: option.splits)

theorem status_message_iff_not_OK_witness:
  "rocksdb_open_transactional sample_Open sample_GetBaseDB sample_world ''/missing'' () =
     Some (\<lparr>code = RocksDBStatusIOError,
            message = Some ''IO error: No such file or directory''\<rparr>, None, sample_world) \<and>
   message_iff_not_OK
     \<lparr>code = RocksDBStatusIOError, message = Some ''IO error: No such file or directory''\<rparr> \<and>
   rocksdb_open_transactional sample_Open sample_GetBaseDB sample_world ''/data/db'' () =
     Some (\<lparr>code = RocksDBStatusOK, message = None\<rparr>, Some 4, sample_world_txn) \<and>
   message_iff_not_OK \<lparr>code = RocksDBStatusOK, message = None\<rparr>"
  using status_message_iff_not_OK [where TxnOpen = sample_Open and GetBaseDB = sample_GetBaseDB
          and w = sample_world and path = "''/missing''" and opts = "()"]
        status_message_iff_not_OK [where TxnOpen = sample_Open and GetBaseDB = sample_GetBaseDB
          and w = sample_world and path = "''/data/db''" and opts = "()"]
  by (simp add: rocksdb_open_transactional_def new_RocksDBHandle_def update_handle_def
      delete_RocksDBHandle_def RocksDBHandle_dtor_def sample_world_def sample_world_txn_def
      sample_Open_def sample_GetBaseDB_def engine_status_def make_status_def fresh_addr_def
      strdup_def c_str_def Let_def message_iff_not_OK_def)

subsection \<open>Null handles\<close>

text \<open>
  Claim C2, as amended. Every operation that returns a status and is handed a null
  database, batch, iterator or transaction handle returns \<open>InvalidArgument\<close> with a
  message that names the null handle; the lookups leave \<open>*value_out\<close> null, the length 0
  and allocate nothing. The claim as stated, for every operation, fails on the operations
  that return no status: see the counterexample below.
\<close>

theorem null_handle_status_operations:
  "rocksdb_put Put None wopts key key_len val val_len =
     \<lparr>code = RocksDBStatusInvalidArgument, message = Some ''Database is null''\<rparr> \<and>
   rocksdb_get Get granted hp None ropts key key_len =
     (\<lparr>code = RocksDBStatusInvalidArgument, message = Some ''Database is null''\<rparr>, None, 0, hp) \<and>
   rocksdb_delete Delete None wopts key key_len =
     \<lparr>code = RocksDBStatusInvalidArgument, message = Some ''Database is null''\<rparr> \<and>
   rocksdb_write_batch Write None wopts batchref =
     \<lparr>code = RocksDBStatusInvalidArgument, message = Some ''Database or batch is null''\<rparr> \<and>
   rocksdb_write_batch Write dbref wopts None =
     \<lparr>code = RocksDBStatusInvalidArgument, message = Some ''Database or batch is null''\<rparr> \<and>
   rocksdb_iterator_status istatus None =
     \<lparr>code = RocksDBStatusInvalidArgument, message = Some ''Iterator is null''\<rparr> \<and>
   rocksdb_transaction_put TxnPut None key key_len val val_len =
     \<lparr>code = RocksDBStatusInvalidArgument, message = Some ''Transaction is null''\<rparr> \<and>
   rocksdb_transaction_get TxnGet granted hp None ropts key key_len =
     (\<lparr>code = RocksDBStatusInvalidArgument, message = Some ''Transaction is null''\<rparr>,
      None, 0, hp) \<and>
   rocksdb_transaction_get_for_update TxnGetForUpdate granted hp None ropts key key_len =
     (\<lparr>code = RocksDBStatusInvalidArgument, message = Some ''Transaction is null''\<rparr>,
      None, 0, hp) \<and>
   rocksdb_transaction_delete TxnDelete None key key_len =
     \<lparr>code = RocksDBStatusInvalidArgument, message = Some ''Transaction is null''\<rparr> \<and>
   rocksdb_transaction_commit Commit None =
     \<lparr>code = RocksDBStatusInvalidArgument, message = Some ''Transaction is null''\<rparr> \<and>
   rocksdb_transaction_rollback_to_savepoint RollbackToSavePoint None =
     \<lparr>code = RocksDBStatusInvalidArgument, message = Some ''Transaction is null''\<rparr> \<and>
   rocksdb_compact_range CompactRange None start_key start_key_len end_key end_key_len =
     \<lparr>code = RocksDBStatusInvalidArgument, message = Some ''Database is null''\<rparr> \<and>
   rocksdb_flush Flush None wait =
     \<lparr>code = RocksDBStatusInvalidArgument, message = Some ''Database is null''\<rparr>"
  by (simp add: rocksdb_put_def rocksdb_get_def rocksdb_delete_def rocksdb_write_batch_def
      rocksdb_iterator_status_def rocksdb_transaction_put_def rocksdb_transaction_get_def
      rocksdb_transaction_get_for_update_def rocksdb_transaction_delete_def
      rocksdb_transaction_commit_def rocksdb_transaction_rollback_to_savepoint_def
      rocksdb_compact_range_def rocksdb_flush_def strdup_def c_str_def
      split: option.splits)

text \<open>
  With a null handle \<open>rocksdb_key_may_exist\<close> returns the plain integer 0, and the batch
  operations do nothing and report nothing: no \<open>InvalidArgument\<close> status reaches the
  caller.
\<close>

theorem null_handle_without_status_counterexample:
  "rocksdb_key_may_exist sample_KeyMayExist None None [1] 1 = 0 \<and>
   rocksdb_batch_put sample_BatchPut None [1] 1 [2] 1 = None \<and>
   rocksdb_batch_delete sample_BatchDelete None [1] 1 = None \<and>
   rocksdb_batch_delete_range sample_BatchPut None [1] 1 [2] 1 = None \<and>
   rocksdb_batch_clear (\<lambda>b. []) (None :: (bytes \<times> bytes) list RocksDBBatchHandle option) = None \<and>
   rocksdb_batch_count length (rocksdb_batch_put sample_BatchPut None [1] 1 [2] 1) = 0"
  by (simp add: rocksdb_key_may_exist_def rocksdb_batch_put_def rocksdb_batch_delete_def
      rocksdb_batch_delete_range_def rocksdb_batch_clear_def rocksdb_batch_count_def)

subsection \<open>Opening a database\<close>

text \<open>
  Claim C4. When the engine's open fails, each of the three open operations returns the
  mapped status, sets \<open>*db_out\<close> to null, and leaves the store of live handles as it
  found it: the handle it had allocated is destroyed, together with any engine object
  the failed open had stored in it.
\<close>

theorem open_failure_leaves_no_handle:
  "(Open opts path = (s1, d1) \<and> \<not> ok s1 \<longrightarrow>
      (\<exists>w'. rocksdb_open Open w path opts = (make_status s1, None, w') \<and>
            handles w' = handles w \<and>
            deleted w' = (case d1 of None \<Rightarrow> [] | Some p \<Rightarrow> [p]) @ deleted w)) \<and>
   (OpenForReadOnly opts path (error_if_wal_exists \<noteq> 0) = (s2, d2) \<and> \<not> ok s2 \<longrightarrow>
      (\<exists>w'. rocksdb_open_for_read_only OpenForReadOnly w path opts error_if_wal_exists =
              (make_status s2, None, w') \<and>
            handles w' = handles w \<and>
            deleted w' = (case d2 of None \<Rightarrow> [] | Some p \<Rightarrow> [p]) @ deleted w)) \<and>
   (TxnOpen opts path = (s3, d3) \<and> \<not> ok s3 \<longrightarrow>
      (\<exists>w'. rocksdb_open_transactional TxnOpen GetBaseDB w path opts =
              Some (make_status s3, None, w') \<and>
            handles w' = handles w \<and>
            deleted w' = (case d3 of None \<Rightarrow> [] | Some p \<Rightarrow> [p]) @ deleted w))"
  by (simp add: open_failed open_for_read_only_failed open_transactional_failed)

theorem open_failure_leaves_no_handle_witness:
  "sample_Open () ''/missing'' =
     (engine_status False False True ''IO error: No such file or directory'', None) \<and>
   \<not> ok (engine_status False False True ''IO error: No such file or directory'') \<and>
   rocksdb_open sample_Open sample_world ''/missing'' () =
     (\<lparr>code = RocksDBStatusIOError,
       message = Some ''IO error: No such file or directory''\<rparr>, None, sample_world) \<and>
   rocksdb_open_for_read_only sample_OpenForReadOnly sample_world ''/missing'' () 1 =
     (\<lparr>code = RocksDBStatusIOError,
       message = Some ''IO error: No such file or directory''\<rparr>, None, sample_world) \<and>
   rocksdb_open_transactional sample_Open sample_GetBaseDB sample_world ''/missing'' () =
     Some (\<lparr>code = RocksDBStatusIOError,
            message = Some ''IO error: No such file or directory''\<rparr>, None, sample_world)"
  using open_failure_leaves_no_handle [of sample_Open "()" "''/missing''"
      "engine_status False False True ''IO error: No such file or directory''" None
      sample_world sample_OpenForReadOnly 1
      "engine_status False False True ''IO error: No such file or directory''" None
      sample_Open
      "engine_status False False True ''IO error: No such file or directory''" None
      sample_GetBaseDB]
  by (auto simp: sample_Open_def sample_OpenForReadOnly_def engine_status_def make_status_def
      strdup_def c_str_def)

subsection \<open>Beginning a transaction\<close>

text \<open>
  Claim C6. \<open>rocksdb_transaction_begin\<close> returns a transaction handle exactly when the
  database handle is non-null, is marked transactional and holds a transactional engine
  object. A handle that \<open>rocksdb_open\<close> or \<open>rocksdb_open_for_read_only\<close> returned never
  gets a transaction, nor does the null handle; a handle that
  \<open>rocksdb_open_transactional\<close> returned always gets one, holding the transaction the
  engine began.
\<close>

theorem transaction_begin_iff_transactional:
  "(rocksdb_transaction_begin BeginTransaction dbref wopts \<noteq> None \<longleftrightarrow>
      (\<exists>h. dbref = Some h \<and> is_transactional h \<and> txn_db h \<noteq> None)) \<and>
   (rocksdb_transaction_begin BeginTransaction dbref wopts \<noteq> None \<longrightarrow>
      rocksdb_is_transactional dbref = 1) \<and>
   rocksdb_transaction_begin BeginTransaction None wopts = None \<and>
   (rocksdb_open Open w path opts = (st1, Some a1, w1) \<longrightarrow>
      rocksdb_transaction_begin BeginTransaction (handle_at w1 (Some a1)) wopts = None) \<and>
   (rocksdb_open_for_read_only OpenForReadOnly w path opts error_if_wal_exists =
      (st2, Some a2, w2) \<longrightarrow>
      rocksdb_transaction_begin BeginTransaction (handle_at w2 (Some a2)) wopts = None) \<and>
   (rocksdb_open_transactional TxnOpen GetBaseDB w path opts = Some (st3, Some a3, w3) \<longrightarrow>
      (\<exists>tp. snd (TxnOpen opts path) = Some tp \<and>
         rocksdb_transaction_begin BeginTransaction (handle_at w3 (Some a3)) wopts =
           Some \<lparr>txn = BeginTransaction tp (writeOpts_of wopts)\<rparr>))"
proof (intro conjI impI)
  show "rocksdb_transaction_begin BeginTransaction dbref wopts \<noteq> None \<longleftrightarrow>
      (\<exists>h. dbref = Some h \<and> is_transactional h \<and> txn_db h \<noteq> None)"
    by (auto simp: rocksdb_transaction_begin_def split: option.splits)
next
  assume "rocksdb_transaction_begin BeginTransaction dbref wopts \<noteq> None"
  then show "rocksdb_is_transactional dbref = 1"
    by (auto simp: rocksdb_transaction_begin_def rocksdb_is_transactional_def
        split: option.splits if_splits)
next
  show "rocksdb_transaction_begin BeginTransaction None wopts = None"
    by (simp add: rocksdb_transaction_begin_def)
next
  assume r: "rocksdb_open Open w path opts = (st1, Some a1, w1)"
  obtain s d where o: "Open opts path = (s, d)" by (cases "Open opts path")
  show "rocksdb_transaction_begin BeginTransaction (handle_at w1 (Some a1)) wopts = None"
  proof (cases "ok s")
    case True
    from open_succeeded [of Open opts path s d w] o True r show ?thesis
      by (auto simp: handle_at_def rocksdb_transaction_begin_def)
  next
    case False
    from open_failed [of Open opts path s d w] o False r show ?thesis by simp
  qed
next
  assume r: "rocksdb_open_for_read_only OpenForReadOnly w path opts error_if_wal_exists =
      (st2, Some a2, w2)"
  obtain s d where o: "OpenForReadOnly opts path (error_if_wal_exists \<noteq> 0) = (s, d)"
    by (cases "OpenForReadOnly opts path (error_if_wal_exists \<noteq> 0)")
  show "rocksdb_transaction_begin BeginTransaction (handle_at w2 (Some a2)) wopts = None"
  proof (cases "ok s")
    case True
    from open_for_read_only_succeeded [of OpenForReadOnly opts path error_if_wal_exists s d w] o True r show ?thesis
      by (auto simp: handle_at_def rocksdb_transaction_begin_def)
  next
    case False
    from open_for_read_only_failed [of OpenForReadOnly opts path error_if_wal_exists s d w] o False r show ?thesis by simp
  qed
next
  assume r: "rocksdb_open_transactional TxnOpen GetBaseDB w path opts = Some (st3, Some a3, w3)"
  obtain s d where o: "TxnOpen opts path = (s, d)" by (cases "TxnOpen opts path")
  show "\<exists>tp. snd (TxnOpen opts path) = Some tp \<and>
         rocksdb_transaction_begin BeginTransaction (handle_at w3 (Some a3)) wopts =
           Some \<lparr>txn = BeginTransaction tp (writeOpts_of wopts)\<rparr>"
  proof (cases "ok s")
    case False
    from open_transactional_failed [of TxnOpen opts path s d GetBaseDB w] o False r show ?thesis by simp
  next
    case True
    show ?thesis
    proof (cases d)
      case None
      with o True r show ?thesis
        by (simp add: rocksdb_open_transactional_def new_RocksDBHandle_def Let_def)
    next
      case (Some tp)
      with o have o': "TxnOpen opts path = (s, Some tp)" by simp
      from open_transactional_succeeded [of TxnOpen opts path s tp GetBaseDB w] True r o' show ?thesis
        by (auto simp: handle_at_def rocksdb_transaction_begin_def)
    qed
  qed
qed

theorem transaction_begin_iff_transactional_witness:
  "rocksdb_open sample_Open sample_world ''/data/db'' () =
     (\<lparr>code = RocksDBStatusOK, message = None\<rparr>, Some 4, sample_world_plain) \<and>
   rocksdb_transaction_begin sample_BeginTransaction
     (handle_at sample_world_plain (Some 4)) None = None \<and>
   rocksdb_open_for_read_only sample_OpenForReadOnly sample_world ''/data/db'' () 0 =
     (\<lparr>code = RocksDBStatusOK, message = None\<rparr>, Some 4, sample_world_plain) \<and>
   rocksdb_open_transactional sample_Open sample_GetBaseDB sample_world ''/data/db'' () =
     Some (\<lparr>code = RocksDBStatusOK, message = None\<rparr>, Some 4, sample_world_txn) \<and>
   rocksdb_transaction_begin sample_BeginTransaction
     (handle_at sample_world_txn (Some 4)) None = Some \<lparr>txn = Some 15\<rparr> \<and>
   rocksdb_is_transactional (handle_at sample_world_txn (Some 4)) = 1"
  using transaction_begin_iff_transactional [of sample_BeginTransaction
      "handle_at sample_world_txn (Some 4)" None
      sample_Open sample_world "''/data/db''" "()"
      "\<lparr>code = RocksDBStatusOK, message = None\<rparr>" 4 sample_world_plain
      sample_OpenForReadOnly 0
      "\<lparr>code = RocksDBStatusOK, message = None\<rparr>" 4 sample_world_plain
      sample_Open sample_GetBaseDB
      "\<lparr>code = RocksDBStatusOK, message = None\<rparr>" 4 sample_world_txn]
  by (simp add: rocksdb_open_def rocksdb_open_for_read_only_def rocksdb_open_transactional_def
      new_RocksDBHandle_def update_handle_def sample_world_def sample_world_plain_def
      sample_world_txn_def sample_Open_def sample_OpenForReadOnly_def sample_GetBaseDB_def
      sample_BeginTransaction_def sample_handle_def handle_at_def
      engine_status_def make_status_def fresh_addr_def Let_def writeOpts_of_def
      default_WriteOptions_def rocksdb_transaction_begin_def rocksdb_is_transactional_def)

subsection \<open>Point lookup\<close>

lemma memcpy_new_block:
  "memcpy ((fresh_addr hp, replicate (length v) 0) # hp) (fresh_addr hp) v (length v) =
     (fresh_addr hp, v) # hp"
  by (simp add: memcpy_def map_fresh_addr)

lemma rocksdb_get_found:
  assumes "db h = Some p" and "Get p (readOpts_of opts) (Slice key key_len) = (s, v)" and "ok s"
  shows "rocksdb_get Get granted hp (Some h) opts key key_len =
           (\<lparr>code = RocksDBStatusOK, message = None\<rparr>,
            (if granted then Some (fresh_addr hp) else None), length v,
            (if granted then (fresh_addr hp, v) # hp else hp))"
  using assms
  by (simp add: rocksdb_get_def malloc_def memcpy_new_block make_status_def)

lemma rocksdb_get_failed:
  assumes "db h = Some p" and "Get p (readOpts_of opts) (Slice key key_len) = (s, v)" and "\<not> ok s"
  shows "rocksdb_get Get granted hp (Some h) opts key key_len = (make_status s, None, 0, hp)"
  using assms by (simp add: rocksdb_get_def)

text \<open>
  Claim C3. On a handle that holds an engine database, when the engine's \<open>Get\<close> answers
  \<open>NotFound\<close> for the key (the key is absent), \<open>rocksdb_get\<close> returns \<open>NotFound\<close>, leaves
  \<open>*value_out\<close> null and \<open>*value_len_out\<close> 0 and allocates nothing. When \<open>Get\<close> answers
  ok with the value (the key is present), it returns \<open>OK\<close>, the length of the value, and
  the address of a block that was not allocated before and now holds the value; this
  includes the value of length 0. The allocator is one that grants the request.
\<close>

theorem rocksdb_get_not_found_or_buffer:
  assumes "db h = Some p" and "Get p (readOpts_of opts) (Slice key key_len) = (s, v)"
  shows "(\<not> ok s \<and> IsNotFound s \<longrightarrow>
            rocksdb_get Get granted hp (Some h) opts key key_len =
              (\<lparr>code = RocksDBStatusNotFound, message = strdup (ToString s)\<rparr>, None, 0, hp)) \<and>
         (ok s \<and> granted \<longrightarrow>
            rocksdb_get Get granted hp (Some h) opts key key_len =
              (\<lparr>code = RocksDBStatusOK, message = None\<rparr>, Some (fresh_addr hp), length v,
               (fresh_addr hp, v) # hp) \<and>
            fresh_addr hp \<notin> fst ` set hp \<and>
            map_of ((fresh_addr hp, v) # hp) (fresh_addr hp) = Some v)"
proof (intro conjI impI)
  assume "\<not> ok s \<and> IsNotFound s"
  with assms show "rocksdb_get Get granted hp (Some h) opts key key_len =
      (\<lparr>code = RocksDBStatusNotFound, message = strdup (ToString s)\<rparr>, None, 0, hp)"
    by (simp add: rocksdb_get_def make_status_def)
next
  assume "ok s \<and> granted"
  with assms show "rocksdb_get Get granted hp (Some h) opts key key_len =
      (\<lparr>code = RocksDBStatusOK, message = None\<rparr>, Some (fresh_addr hp), length v,
       (fresh_addr hp, v) # hp)"
    by (simp add: rocksdb_get_def malloc_def memcpy_new_block make_status_def)
next
  show "fresh_addr hp \<notin> fst ` set hp" by (rule fresh_addr_notin)
next
  show "map_of ((fresh_addr hp, v) # hp) (fresh_addr hp) = Some v" by simp
qed

theorem rocksdb_get_not_found_or_buffer_witness:
  "rocksdb_get sample_Get True [(1, [9])] (Some sample_handle) None [3] 1 =
     (\<lparr>code = RocksDBStatusNotFound, message = Some ''NotFound: ''\<rparr>, None, 0, [(1, [9])]) \<and>
   rocksdb_get sample_Get True [(1, [9])] (Some sample_handle) None [1, 0] 1 =
     (\<lparr>code = RocksDBStatusOK, message = None\<rparr>, Some 2, 2, [(2, [7, 8]), (1, [9])]) \<and>
   rocksdb_get sample_Get True [(1, [9])] (Some sample_handle) None [2] 1 =
     (\<lparr>code = RocksDBStatusOK, message = None\<rparr>, Some 2, 0, [(2, []), (1, [9])])"
  using rocksdb_get_not_found_or_buffer [of sample_handle 1 sample_Get None "[3]" 1
          "engine_status False True False ''NotFound: ''" "[]" True "[(1, [9])]"]
        rocksdb_get_not_found_or_buffer [of sample_handle 1 sample_Get None "[1, 0]" 1
          "engine_status True False False ''OK''" "[7, 8]" True "[(1, [9])]"]
        rocksdb_get_not_found_or_buffer [of sample_handle 1 sample_Get None "[2]" 1
          "engine_status True False False ''OK''" "[]" True "[(1, [9])]"]
  by (simp add: sample_handle_def sample_Get_def Slice_def engine_status_def strdup_def c_str_def
      fresh_addr_def)

subsection \<open>Iterator accessors\<close>

text \<open>
  Claim C5. Whenever \<open>rocksdb_iterator_valid\<close> is 0 (the handle is null, holds no engine
  iterator, or the engine iterator is not valid), \<open>rocksdb_iterator_key\<close> and
  \<open>rocksdb_iterator_value\<close> return the null pointer and the length 0, without asking
  the engine for the key or the value.
\<close>

theorem iterator_accessors_empty_when_invalid:
  "rocksdb_iterator_valid Valid iterref = 0 \<Longrightarrow>
     rocksdb_iterator_key Valid ikey iterref = (None, 0) \<and>
     rocksdb_iterator_value Valid ivalue iterref = (None, 0)"
  by (auto simp: rocksdb_iterator_valid_def rocksdb_iterator_key_def rocksdb_iterator_value_def
      split: option.splits if_splits)

theorem iterator_accessors_empty_when_invalid_witness:
  "rocksdb_iterator_valid sample_iterator_valid None = 0 \<and>
   rocksdb_iterator_key sample_iterator_valid sample_iterator_key None = (None, 0) \<and>
   rocksdb_iterator_value sample_iterator_valid sample_iterator_key None = (None, 0) \<and>
   rocksdb_iterator_valid sample_iterator_valid (Some \<lparr>iter = Some 2\<rparr>) = 0 \<and>
   rocksdb_iterator_key sample_iterator_valid sample_iterator_key (Some \<lparr>iter = Some 2\<rparr>) = (None, 0) \<and>
   rocksdb_iterator_value sample_iterator_valid sample_iterator_key (Some \<lparr>iter = Some 2\<rparr>) = (None, 0)"
  using iterator_accessors_empty_when_invalid [of sample_iterator_valid None
          sample_iterator_key sample_iterator_key]
        iterator_accessors_empty_when_invalid [of sample_iterator_valid "Some \<lparr>iter = Some 2\<rparr>"
          sample_iterator_key sample_iterator_key]
  by (simp add: rocksdb_iterator_valid_def sample_iterator_valid_def)

subsection \<open>Maintenance\<close>

text \<open>
  Claim C9. On a handle that holds an engine database, \<open>rocksdb_get_property\<close> returns
  the null pointer when the engine does not know the property (\<open>GetProperty\<close> answers
  false), and a non-null string when it does: the copy of the value, which for the
  empty value is the empty string and so differs from the absent result.
\<close>

theorem get_property_absent_or_string:
  assumes "db h = Some p"
  shows "(GetProperty p property = (False, v) \<longrightarrow>
            rocksdb_get_property GetProperty (Some h) property = None) \<and>
         (GetProperty p property = (True, v) \<longrightarrow>
            rocksdb_get_property GetProperty (Some h) property = Some (c_str v) \<and>
            rocksdb_get_property GetProperty (Some h) property \<noteq> None) \<and>
         (GetProperty p property = (True, '''') \<longrightarrow>
            rocksdb_get_property GetProperty (Some h) property = Some '''')"
  using assms by (simp add: rocksdb_get_property_def strdup_def c_str_def)

theorem get_property_absent_or_string_witness:
  "rocksdb_get_property sample_GetProperty (Some sample_handle) ''rocksdb.no-such'' = None \<and>
   rocksdb_get_property sample_GetProperty (Some sample_handle) ''rocksdb.num-files-at-level0'' =
     Some ''2'' \<and>
   rocksdb_get_property sample_GetProperty (Some sample_handle) ''rocksdb.stats'' = Some ''''"
  using get_property_absent_or_string [of sample_handle 1 sample_GetProperty "''rocksdb.no-such''" "''''"]
        get_property_absent_or_string [of sample_handle 1 sample_GetProperty
          "''rocksdb.num-files-at-level0''" "''2''"]
        get_property_absent_or_string [of sample_handle 1 sample_GetProperty "''rocksdb.stats''" "''''"]
  by (simp add: sample_handle_def sample_GetProperty_def c_str_def)

lemma GetApproximateSizes_length:
  "n \<le> length ranges \<Longrightarrow> n \<le> length sizes \<Longrightarrow>
     length (GetApproximateSizes est ranges n sizes) = length sizes"
  by (simp add: GetApproximateSizes_def)

lemma GetApproximateSizes_written:
  "n \<le> length ranges \<Longrightarrow> i < n \<Longrightarrow>
     GetApproximateSizes est ranges n sizes ! i = est (ranges ! i)"
  by (simp add: GetApproximateSizes_def nth_append)

lemma GetApproximateSizes_kept:
  "n \<le> length ranges \<Longrightarrow> n \<le> i \<Longrightarrow> i < length sizes \<Longrightarrow>
     GetApproximateSizes est ranges n sizes ! i = sizes ! i"
  by (simp add: GetApproximateSizes_def nth_append)

text \<open>
  Claim C10. \<open>rocksdb_get_approximate_sizes\<close> returns with \<open>sizes_out\<close> as it was when
  the handle is null (or holds no engine database, the other half of the source's test)
  or \<open>num_ranges\<close> is not positive. Otherwise, with arrays of at least \<open>num_ranges\<close>
  entries, \<open>sizes_out\<close> keeps its length, entry \<open>i\<close> below \<open>num_ranges\<close> is the engine's
  estimate for the range built from the \<open>i\<close>-th start and end key, and every entry
  from \<open>num_ranges\<close> on is unchanged.
\<close>

theorem approximate_sizes_frame:
  "(dbref = None \<or> num_ranges \<le> 0 \<longrightarrow>
      rocksdb_get_approximate_sizes ApproximateSize dbref num_ranges
        start_keys start_key_lens end_keys end_key_lens sizes_out = Some sizes_out) \<and>
   (dbref = Some h \<and> db h = None \<longrightarrow>
      rocksdb_get_approximate_sizes ApproximateSize dbref num_ranges
        start_keys start_key_lens end_keys end_key_lens sizes_out = Some sizes_out) \<and>
   (dbref = Some h \<and> db h = Some p \<and> 0 < num_ranges \<and>
    nat num_ranges \<le> length start_keys \<and> nat num_ranges \<le> length start_key_lens \<and>
    nat num_ranges \<le> length end_keys \<and> nat num_ranges \<le> length end_key_lens \<and>
    nat num_ranges \<le> length sizes_out \<longrightarrow>
      (\<exists>out. rocksdb_get_approximate_sizes ApproximateSize dbref num_ranges
                start_keys start_key_lens end_keys end_key_lens sizes_out = Some out \<and>
             length out = length sizes_out \<and>
             (\<forall>i. i < nat num_ranges \<longrightarrow>
                out ! i = ApproximateSize p (Slice (start_keys ! i) (start_key_lens ! i),
                                             Slice (end_keys ! i) (end_key_lens ! i))) \<and>
             (\<forall>i. nat num_ranges \<le> i \<and> i < length sizes_out \<longrightarrow> out ! i = sizes_out ! i)))"
proof (intro conjI impI)
  assume "dbref = None \<or> num_ranges \<le> 0"
  then show "rocksdb_get_approximate_sizes ApproximateSize dbref num_ranges
        start_keys start_key_lens end_keys end_key_lens sizes_out = Some sizes_out"
    by (auto simp: rocksdb_get_approximate_sizes_def split: option.splits)
next
  assume "dbref = Some h \<and> db h = None"
  then show "rocksdb_get_approximate_sizes ApproximateSize dbref num_ranges
        start_keys start_key_lens end_keys end_key_lens sizes_out = Some sizes_out"
    by (simp add: rocksdb_get_approximate_sizes_def)
next
  let ?n = "nat num_ranges"
  let ?ranges = "map (\<lambda>i. (Slice (start_keys ! i) (start_key_lens ! i),
                             Slice (end_keys ! i) (end_key_lens ! i))) [0..<?n]"
  let ?out = "GetApproximateSizes (ApproximateSize p) ?ranges ?n sizes_out"
  assume a: "dbref = Some h \<and> db h = Some p \<and> 0 < num_ranges \<and>
    nat num_ranges \<le> length start_keys \<and> nat num_ranges \<le> length start_key_lens \<and>
    nat num_ranges \<le> length end_keys \<and> nat num_ranges \<le> length end_key_lens \<and>
    nat num_ranges \<le> length sizes_out"
  then have r: "rocksdb_get_approximate_sizes ApproximateSize dbref num_ranges
                start_keys start_key_lens end_keys end_key_lens sizes_out = Some ?out"
    by (simp add: rocksdb_get_approximate_sizes_def Let_def)
  have len: "?n \<le> length ?ranges" by simp
  have l: "length ?out = length sizes_out"
    using a by (intro GetApproximateSizes_length) simp_all
  have w: "\<forall>i. i < ?n \<longrightarrow>
      ?out ! i = ApproximateSize p (Slice (start_keys ! i) (start_key_lens ! i),
                                   Slice (end_keys ! i) (end_key_lens ! i))"
    using GetApproximateSizes_written [OF len] by simp
  have k: "\<forall>i. ?n \<le> i \<and> i < length sizes_out \<longrightarrow> ?out ! i = sizes_out ! i"
    using GetApproximateSizes_kept [OF len] by blast
  from r l w k show "\<exists>out. rocksdb_get_approximate_sizes ApproximateSize dbref num_ranges
                start_keys start_key_lens end_keys end_key_lens sizes_out = Some out \<and>
             length out = length sizes_out \<and>
             (\<forall>i. i < nat num_ranges \<longrightarrow>
                out ! i = ApproximateSize p (Slice (start_keys ! i) (start_key_lens ! i),
                                             Slice (end_keys ! i) (end_key_lens ! i))) \<and>
             (\<forall>i. nat num_ranges \<le> i \<and> i < length sizes_out \<longrightarrow> out ! i = sizes_out ! i)"
    by blast
qed

theorem approximate_sizes_frame_witness:
  "rocksdb_get_approximate_sizes sample_ApproximateSize None 2
     [[1], [2, 3]] [1, 2] [[4], [5, 6]] [1, 1] [70, 80, 90] = Some [70, 80, 90] \<and>
   rocksdb_get_approximate_sizes sample_ApproximateSize (Some sample_handle) 0
     [[1], [2, 3]] [1, 2] [[4], [5, 6]] [1, 1] [70, 80, 90] = Some [70, 80, 90] \<and>
   rocksdb_get_approximate_sizes sample_ApproximateSize (Some sample_handle) 2
     [[1], [2, 3]] [1, 2] [[4], [5, 6]] [1, 1] [70, 80, 90] = Some [2, 3, 90]"
  using approximate_sizes_frame [of None 2 sample_ApproximateSize
          "[[1], [2, 3]]" "[1, 2]" "[[4], [5, 6]]" "[1, 1]" "[70, 80, 90]" sample_handle 1]
        approximate_sizes_frame [of "Some sample_handle" 0 sample_ApproximateSize
          "[[1], [2, 3]]" "[1, 2]" "[[4], [5, 6]]" "[1, 1]" "[70, 80, 90]" sample_handle 1]
        approximate_sizes_frame [of "Some sample_handle" 2 sample_ApproximateSize
          "[[1], [2, 3]]" "[1, 2]" "[[4], [5, 6]]" "[1, 1]" "[70, 80, 90]" sample_handle 1]
  by (simp add: rocksdb_get_approximate_sizes_def sample_handle_def GetApproximateSizes_def
      sample_ApproximateSize_def Slice_def upt_rec)

text \<open>
  Claim C8. On a handle that holds an engine database, \<open>rocksdb_compact_range\<close> returns
  the mapped status of the engine's \<open>CompactRange\<close>, called with the bounds that
  \<open>compaction_bounds\<close> builds. A bound is missing exactly when its pointer is null or
  its length is 0, and is the slice of that length otherwise. Under the spec's reading of
  the engine call, the keys compacted are those from the start bound (if any) up to but
  excluding the end bound (if any).
\<close>

theorem compact_range_bounds:
  assumes "db h = Some p"
  shows "rocksdb_compact_range CompactRange (Some h) start_key start_key_len end_key end_key_len =
           make_status (CompactRange p
             (fst (compaction_bounds start_key start_key_len end_key end_key_len))
             (snd (compaction_bounds start_key start_key_len end_key end_key_len))) \<and>
         (fst (compaction_bounds start_key start_key_len end_key end_key_len) = None \<longleftrightarrow>
            start_key = None \<or> start_key_len = 0) \<and>
         (snd (compaction_bounds start_key start_key_len end_key end_key_len) = None \<longleftrightarrow>
            end_key = None \<or> end_key_len = 0) \<and>
         (in_compaction_range
            (fst (compaction_bounds start_key start_key_len end_key end_key_len))
            (snd (compaction_bounds start_key start_key_len end_key end_key_len)) k \<longleftrightarrow>
            (case start_key of
               None \<Rightarrow> True
             | Some sk \<Rightarrow> start_key_len = 0 \<or> Slice sk start_key_len \<le> k) \<and>
            (case end_key of
               None \<Rightarrow> True
             | Some ek \<Rightarrow> end_key_len = 0 \<or> k < Slice ek end_key_len))"
  using assms
  by (auto simp: rocksdb_compact_range_def compaction_bounds_def in_compaction_range_def
      split: option.splits)

theorem compact_range_bounds_witness:
  "rocksdb_compact_range sample_CompactRange (Some sample_handle) (Some [98, 99]) 1 None 5 =
     \<lparr>code = RocksDBStatusOK, message = None\<rparr> \<and>
   compaction_bounds (Some [98, 99]) 1 None 5 = (Some [98], None) \<and>
   compaction_bounds (Some [98, 99]) 0 (Some [100]) 1 = (None, Some [100]) \<and>
   in_compaction_range (Some [98]) None [98] \<and>
   \<not> in_compaction_range (Some [98]) None [97, 120] \<and>
   in_compaction_range None (Some [100]) [99, 255] \<and>
   \<not> in_compaction_range None (Some [100]) [100]"
  using compact_range_bounds [of sample_handle 1 sample_CompactRange "Some [98, 99]" 1 None 5 "[98]"]
        compact_range_bounds [of sample_handle 1 sample_CompactRange "Some [98, 99]" 1 None 5 "[97, 120]"]
        compact_range_bounds [of sample_handle 1 sample_CompactRange "Some [98, 99]" 0 "Some [100]" 1 "[99, 255]"]
        compact_range_bounds [of sample_handle 1 sample_CompactRange "Some [98, 99]" 0 "Some [100]" 1 "[100]"]
  by (simp add: sample_handle_def sample_CompactRange_def engine_status_def make_status_def
      compaction_bounds_def Slice_def in_compaction_range_def)

end
